theory Spec2Isabelle
  imports Main "HOL-Library.Word"
begin

section \<open>Constants of the relay\<close>

text \<open>
  \<^verbatim>\<open>const ( SesSizeLimit = 40000000; DefaultAddr = ":2500" )\<close>
\<close>

definition SesSizeLimit :: int where
  "SesSizeLimit = 40000000"

definition DefaultAddr :: string where
  "DefaultAddr = '':2500''"

section \<open>The part of Go's \<open>io\<close> package that body submission uses\<close>

type_synonym byte = "8 word"

text \<open>
  A Go \<open>error\<close> value is either \<open>nil\<close> (\<open>None\<close> of \<open>error option\<close>), the sentinel
  \<open>io.EOF\<close>, or some other error, kept by its text.
\<close>

datatype error = EOF | Failure string

text \<open>
  An \<open>io.Reader\<close> is an interface; the body reader the protocol engine passes to
  \<open>Session.Data\<close> is modelled by what it still has to deliver: the bytes \<open>pending\<close>, the
  condition \<open>final\<close> it reports once they are exhausted (\<open>EOF\<close> for a body that ended
  properly, any other error for a failed read), and whether that condition comes
  together with the last bytes (\<open>eager\<close>, which the contract of \<open>io.Reader\<close> allows) or
  on the call after them (as \<open>bytes.Reader\<close> does). \<open>Reader_Read r k\<close> is \<open>r.Read(p)\<close> with
  \<open>len(p) = k\<close>: the bytes stored into \<open>p\<close>, the error, and the reader afterwards.
\<close>

record Reader =
  pending :: "byte list"
  final :: error
  eager :: bool

definition Reader_Read :: "Reader \<Rightarrow> nat \<Rightarrow> byte list \<times> error option \<times> Reader" where
  "Reader_Read r k =
     (if pending r = [] then ([], Some (final r), r)
      else (take k (pending r),
            if drop k (pending r) = [] \<and> eager r then Some (final r) else None,
            r\<lparr>pending := drop k (pending r)\<rparr>))"

text \<open>
  \<^verbatim>\<open>
  type LimitedReader struct { R Reader; N int64 }
  func LimitReader(r Reader, n int64) Reader { return &LimitedReader{r, n} }
  func (l *LimitedReader) Read(p []byte) (n int, err error) {
      if l.N <= 0 { return 0, EOF }
      if int64(len(p)) > l.N { p = p[0:l.N] }
      n, err = l.R.Read(p)
      l.N -= int64(n)
      return
  }
  \<close>
\<close>

record LimitedReader =
  R :: Reader
  N :: int

definition LimitReader :: "Reader \<Rightarrow> int \<Rightarrow> LimitedReader" where
  "LimitReader r n = \<lparr>R = r, N = n\<rparr>"

definition LimitedReader_Read ::
  "LimitedReader \<Rightarrow> nat \<Rightarrow> byte list \<times> error option \<times> LimitedReader" where
  "LimitedReader_Read l k =
     (if N l \<le> 0 then ([], Some EOF, l)
      else (case Reader_Read (R l) (if int k > N l then nat (N l) else k) of
              (bs, err, r') \<Rightarrow> (bs, err, l\<lparr>R := r', N := N l - int (length bs)\<rparr>)))"

text \<open>
  \<^verbatim>\<open>
  func ReadAll(r Reader) ([]byte, error) {
      b := make([]byte, 0, 512)
      for {
          n, err := r.Read(b[len(b):cap(b)])
          b = b[:len(b)+n]
          if err != nil {
              if err == EOF { err = nil }
              return b, err
          }
          if len(b) == cap(b) { b = append(b, 0)[:len(b)] }
      }
  }
  \<close>
  The buffer always has spare capacity when \<open>Read\<close> is called; the model offers 512
  bytes, the initial capacity, on every call. The loop ends because a call that returns
  no error has consumed at least one pending byte.
\<close>

function ReadAll_loop ::
  "LimitedReader \<Rightarrow> byte list \<Rightarrow> byte list \<times> error option \<times> LimitedReader" where
  "ReadAll_loop l b =
     (case LimitedReader_Read l 512 of
        (bs, Some e, l') \<Rightarrow> (b @ bs, if e = EOF then None else Some e, l')
      | (bs, None, l') \<Rightarrow> ReadAll_loop l' (b @ bs))"
  by pat_completeness auto
termination
  by (relation "measure (\<lambda>(l, b). length (pending (R l)))")
     (auto simp: LimitedReader_Read_def Reader_Read_def split: if_splits)

definition ReadAll :: "LimitedReader \<Rightarrow> byte list \<times> error option \<times> LimitedReader" where
  "ReadAll l = ReadAll_loop l []"

section \<open>The sending API and the metrics\<close>

text \<open>
  \<^verbatim>\<open>ses.SendRawEmailInput\<close> with the four fields the relay sets (the others keep their
  zero value); a Go pointer is an \<open>option\<close>, \<open>nil\<close> being \<open>None\<close>.
\<close>

record RawMessage =
  Data :: "byte list option"

record SendRawEmailInput =
  ConfigurationSetName :: "string option"
  Source :: "string option"
  Destinations :: "string list"
  RawMessage :: "RawMessage option"

text \<open>
  The credentials of an \<open>aws.Config\<close>: what \<open>config.LoadDefaultConfig\<close> resolved, an
  assume-role provider (the configuration its STS client was made from, the role, the
  session name), or a cache around a provider.
\<close>

datatype CredentialsProvider =
    DefaultChain string
  | AssumeRoleProvider CredentialsProvider string string
  | CredentialsCache CredentialsProvider

record Config =
  Credentials :: CredentialsProvider

record SesClient =
  cfg :: Config

text \<open>The lines the relay writes with \<open>log.Printf\<close>, by format string.\<close>

datatype LogLine =
    LogSizeExceeded nat int
  | LogSesError error
  | LogSending string "string list" string
  | LogIdentityWarning error
  | LogIdentity string string
  | LogConfigSetValidated string

text \<open>
  What lies outside a session: the three Prometheus collectors (\<open>emailError\<close> is a
  counter vector keyed by the value of its \<open>type\<close> label), the log, and the sending
  service, which is the requests it has received so far and the answer (\<open>nil\<close> or an
  error) it gives to the next one.
\<close>

record World =
  emailSent :: nat
  emailError :: "string \<Rightarrow> nat"
  sesError :: nat
  logged :: "LogLine list"
  ses_calls :: "(SesClient \<times> SendRawEmailInput) list"
  ses_service :: "nat \<Rightarrow> SesClient \<Rightarrow> SendRawEmailInput \<Rightarrow> error option"

definition emailSent_Inc :: "World \<Rightarrow> World" where
  "emailSent_Inc w = w\<lparr>emailSent := emailSent w + 1\<rparr>"

definition emailError_Inc :: "string \<Rightarrow> World \<Rightarrow> World" where
  "emailError_Inc ty w = w\<lparr>emailError := (emailError w)(ty := emailError w ty + 1)\<rparr>"

definition sesError_Inc :: "World \<Rightarrow> World" where
  "sesError_Inc w = w\<lparr>sesError := sesError w + 1\<rparr>"

definition log_Printf :: "LogLine \<Rightarrow> World \<Rightarrow> World" where
  "log_Printf ln w = w\<lparr>logged := logged w @ [ln]\<rparr>"

definition SendRawEmail ::
  "SesClient \<Rightarrow> SendRawEmailInput \<Rightarrow> World \<Rightarrow> error option \<times> World" where
  "SendRawEmail c input w =
     (ses_service w (length (ses_calls w)) c input,
      w\<lparr>ses_calls := ses_calls w @ [(c, input)]\<rparr>)"

section \<open>Backend and Session\<close>

text \<open>
  \<^verbatim>\<open>
  type Backend struct { sesClient *ses.Client; configSetName *string }
  type Session struct { backend *Backend; conn *smtp.Conn; from string
                        recipients []string; data []byte }
  \<close>
  The connection is an opaque identifier. A \<open>nil\<close> and an empty \<open>recipients\<close> slice are
  the same list (the code only takes its length and appends); \<open>data\<close> keeps the
  difference between \<open>nil\<close> and a slice. \<open>NewSession\<close> never returns an error; the
  options argument of \<open>Mail\<close> and of \<open>Rcpt\<close>, which the code does not read, is left out.
\<close>

record Backend =
  sesClient :: SesClient
  configSetName :: "string option"

record Session =
  backend :: Backend
  conn :: nat
  from' :: string
  recipients :: "string list"
  data :: "byte list option"

record SMTPError =
  Code :: int
  EnhancedCode :: "int \<times> int \<times> int"
  Message :: string

definition Backend_NewSession :: "Backend \<Rightarrow> nat \<Rightarrow> Session" where
  "Backend_NewSession b c =
     \<lparr>backend = b, conn = c, from' = [], recipients = [], data = None\<rparr>"

definition Session_AuthPlain :: "Session \<Rightarrow> string \<Rightarrow> string \<Rightarrow> SMTPError option \<times> Session" where
  "Session_AuthPlain s username password = (None, s)"

definition Session_Mail :: "Session \<Rightarrow> string \<Rightarrow> SMTPError option \<times> Session" where
  "Session_Mail s from = (None, s\<lparr>from' := from\<rparr>)"

definition Session_Rcpt :: "Session \<Rightarrow> string \<Rightarrow> SMTPError option \<times> Session" where
  "Session_Rcpt s to = (None, s\<lparr>recipients := recipients s @ [to]\<rparr>)"

definition Session_Reset :: "Session \<Rightarrow> Session" where
  "Session_Reset s = s\<lparr>from' := [], recipients := [], data := None\<rparr>"

definition Session_Logout :: "Session \<Rightarrow> SMTPError option" where
  "Session_Logout s = None"

text \<open>
  \<open>Session.Data\<close>, statement by statement. It returns the error (\<open>None\<close> for \<open>nil\<close>), the
  session, the body reader as the call leaves it, and the world.
\<close>

definition Session_Data ::
  "Session \<Rightarrow> Reader \<Rightarrow> World \<Rightarrow> SMTPError option \<times> Session \<times> Reader \<times> World" where
  "Session_Data s r w =
     (if length (recipients s) = 0 then
        (Some \<lparr>Code = 554, EnhancedCode = (5, 5, 1), Message = ''Error: no valid recipients''\<rparr>,
         s, r, emailError_Inc ''no valid recipients'' w)
      else
        (case ReadAll (LimitReader r (SesSizeLimit + 1)) of
           (body, Some err, l) \<Rightarrow>
             (Some \<lparr>Code = 451, EnhancedCode = (4, 5, 1),
                    Message = ''Temporary server error reading message''\<rparr>,
              s, R l, emailError_Inc ''read error'' w)
         | (body, None, l) \<Rightarrow>
             if int (length body) > SesSizeLimit then
               (Some \<lparr>Code = 554, EnhancedCode = (5, 5, 1),
                      Message = ''Error: maximum message size exceeded''\<rparr>,
                s, R l,
                log_Printf (LogSizeExceeded (length body) SesSizeLimit)
                  (emailError_Inc ''minimum message size exceed'' w))
             else
               (let s' = s\<lparr>data := Some body\<rparr>;
                    input = \<lparr>ConfigurationSetName = configSetName (backend s'),
                             Source = Some (from' s'),
                             Destinations = recipients s',
                             RawMessage = Some \<lparr>Data = data s'\<rparr>\<rparr>
                in case SendRawEmail (sesClient (backend s')) input w of
                     (Some err, w') \<Rightarrow>
                       (Some \<lparr>Code = 451, EnhancedCode = (4, 5, 1),
                              Message = ''Temporary server error. Please try again later''\<rparr>,
                        s', R l,
                        sesError_Inc (emailError_Inc ''ses error'' (log_Printf (LogSesError err) w')))
                   | (None, w') \<Rightarrow>
                       (let configSetInfo =
                              (case configSetName (backend s') of
                                 None \<Rightarrow> ''no config set''
                               | Some name \<Rightarrow> ''config set: '' @ name)
                        in (None, s', R l,
                            emailSent_Inc
                              (log_Printf (LogSending (from' s') (recipients s') configSetInfo) w'))))))"

text \<open>
  The protocol engine drives a session through the callbacks of \<open>smtp.Session\<close>. A
  \<open>Command\<close> is one such invocation with its arguments; \<open>invoke\<close> performs it on a
  session and the world around it, \<open>invoke_all\<close> a whole sequence, collecting the
  result of every callback (\<open>Reset\<close> returns nothing, which is \<open>None\<close> here).
\<close>

datatype Command =
    AUTH string string
  | MAIL string
  | RCPT string
  | DATA Reader
  | RSET

fun invoke :: "Command \<Rightarrow> Session \<Rightarrow> World \<Rightarrow> SMTPError option \<times> Session \<times> World" where
  "invoke (AUTH username password) s w =
     (case Session_AuthPlain s username password of (e, s') \<Rightarrow> (e, s', w))"
| "invoke (MAIL from) s w = (case Session_Mail s from of (e, s') \<Rightarrow> (e, s', w))"
| "invoke (RCPT to) s w = (case Session_Rcpt s to of (e, s') \<Rightarrow> (e, s', w))"
| "invoke (DATA r) s w = (case Session_Data s r w of (e, s', r', w') \<Rightarrow> (e, s', w'))"
| "invoke RSET s w = (None, Session_Reset s, w)"

fun invoke_all ::
  "Command list \<Rightarrow> Session \<Rightarrow> World \<Rightarrow> SMTPError option list \<times> Session \<times> World" where
  "invoke_all [] s w = ([], s, w)"
| "invoke_all (c # cs) s w =
     (case invoke c s w of
        (e, s', w') \<Rightarrow> (case invoke_all cs s' w' of (es, s'', w'') \<Rightarrow> (e # es, s'', w'')))"

section \<open>Startup\<close>

text \<open>
  The process environment maps a variable to its value when it is set; \<open>os.Getenv\<close>
  returns the empty string for a variable that is not set.
\<close>

type_synonym Env = "string \<Rightarrow> string option"

definition Getenv :: "Env \<Rightarrow> string \<Rightarrow> string" where
  "Getenv env key = (case env key of None \<Rightarrow> [] | Some v \<Rightarrow> v)"

text \<open>
  \<open>makeSesClient\<close>. Its surroundings are parameters: \<open>loaded\<close> is what
  \<open>config.LoadDefaultConfig\<close> returned, \<open>identity\<close> what \<open>GetCallerIdentity\<close> answers
  (account and ARN, or an error) for a configuration.
\<close>

definition makeSesClient ::
  "error + Config \<Rightarrow> Env \<Rightarrow> (Config \<Rightarrow> error + string \<times> string) \<Rightarrow> World
   \<Rightarrow> (error + SesClient) \<times> World" where
  "makeSesClient loaded env identity w =
     (case loaded of
        Inl err \<Rightarrow> (Inl err, w)
      | Inr cfg0 \<Rightarrow>
          (let roleArn = Getenv env ''AWS_ROLE_ARN'';
               cfg1 =
                 (if roleArn \<noteq> [] then
                    (let sessionName0 = Getenv env ''AWS_ROLE_SESSION_NAME'';
                         sessionName =
                           (if sessionName0 = [] then ''ses-smtpd-relay-session''
                            else sessionName0);
                         provider = AssumeRoleProvider (Credentials cfg0) roleArn sessionName
                     in cfg0\<lparr>Credentials := CredentialsCache provider\<rparr>)
                  else cfg0);
               w' =
                 (case identity cfg1 of
                    Inl err \<Rightarrow> log_Printf (LogIdentityWarning err) w
                  | Inr (account, arn) \<Rightarrow> log_Printf (LogIdentity account arn) w)
           in (Inr \<lparr>cfg = cfg1\<rparr>, w')))"

text \<open>
  \<open>validateConfigurationSet\<close> returns the error of \<open>DescribeConfigurationSet\<close>, the
  parameter \<open>describe\<close>.
\<close>

definition validateConfigurationSet ::
  "(SesClient \<Rightarrow> string \<Rightarrow> error option) \<Rightarrow> SesClient \<Rightarrow> string \<Rightarrow> error option" where
  "validateConfigurationSet describe c name = describe c name"

text \<open>
  \<open>flag.Arg(i)\<close> is the \<open>i\<close>-th remaining command-line argument, the empty string when
  there is none.
\<close>

definition Arg :: "string list \<Rightarrow> nat \<Rightarrow> string" where
  "Arg args i = (if i < length args then args ! i else [])"

text \<open>
  The part of \<open>main\<close> from the creation of the client to the construction of the
  backend (the version flag and the two HTTP servers left aside): the value of the
  \<open>-configuration-set-name\<close> flag and the remaining arguments come in, and either a
  \<open>log.Fatalf\<close> ends the process or the listen address and the backend come out.
\<close>

datatype Fatal =
    FatalAwsSession error
  | FatalConfigSet string error
  | FatalUsage

definition main_startup ::
  "string \<Rightarrow> string list \<Rightarrow> error + Config \<Rightarrow> Env \<Rightarrow> (Config \<Rightarrow> error + string \<times> string)
   \<Rightarrow> (SesClient \<Rightarrow> string \<Rightarrow> error option) \<Rightarrow> World
   \<Rightarrow> (Fatal + string \<times> Backend) \<times> World" where
  "main_startup configurationSetName args loaded env identity describe w =
     (case makeSesClient loaded env identity w of
        (Inl err, w1) \<Rightarrow> (Inl (FatalAwsSession err), w1)
      | (Inr client, w1) \<Rightarrow>
          (case (if configurationSetName \<noteq> []
                 then validateConfigurationSet describe client configurationSetName
                 else None) of
             Some err \<Rightarrow> (Inl (FatalConfigSet configurationSetName err), w1)
           | None \<Rightarrow>
               (let w2 = (if configurationSetName \<noteq> []
                          then log_Printf (LogConfigSetValidated configurationSetName) w1
                          else w1)
                in if Arg args 0 = [] \<and> length args > 1 then (Inl FatalUsage, w2)
                   else
                     (let addr = (if Arg args 0 \<noteq> [] then Arg args 0 else DefaultAddr);
                          configSetPtr = (if configurationSetName \<noteq> []
                                          then Some configurationSetName else None)
                      in (Inr (addr, \<lparr>sesClient = client, configSetName = configSetPtr\<rparr>),
                          w2)))))"

section \<open>Values for the example scenarios\<close>

text \<open>
  A backend without a configuration set, a world whose counters are all zero and
  whose sending service gives the same answer to every request, a body reader that
  ends properly after the given bytes, and a session of sender \<open>a@example.com\<close> with the
  given recipients.
\<close>

definition example_backend :: Backend where
  "example_backend =
     \<lparr>sesClient = \<lparr>cfg = \<lparr>Credentials = DefaultChain ''default''\<rparr>\<rparr>, configSetName = None\<rparr>"

definition example_world :: "error option \<Rightarrow> World" where
  "example_world answer =
     \<lparr>emailSent = 0, emailError = (\<lambda>ty. 0), sesError = 0, logged = [], ses_calls = [],
      ses_service = (\<lambda>n c input. answer)\<rparr>"

definition example_reader :: "byte list \<Rightarrow> Reader" where
  "example_reader bs = \<lparr>pending = bs, final = EOF, eager = False\<rparr>"

definition example_session :: "string list \<Rightarrow> Session" where
  "example_session rcpts =
     \<lparr>backend = example_backend, conn = 0, from' = ''a@example.com'', recipients = rcpts,
      data = None\<rparr>"

section \<open>What reading under a limit returns\<close>

text \<open>
  The loop of \<open>ReadAll\<close> over a \<open>LimitedReader\<close> in closed form: it returns the first
  \<open>N\<close> pending bytes; the reader's final condition surfaces only if the bytes run out
  before the limit, or exactly at the limit for a reader that reports it together with
  its last bytes, and \<open>EOF\<close> is turned into \<open>nil\<close>.
\<close>

declare ReadAll_loop.simps [simp del]

lemma Reader_same [simp]: "r\<lparr>pending := pending r\<rparr> = r"
  by simp

lemma ReadAll_loop_eq:
  "ReadAll_loop l b =
     (b @ take (nat (N l)) (pending (R l)),
      (if final (R l) \<noteq> EOF \<and> 0 < N l \<and>
          (length (pending (R l)) < nat (N l) \<or>
           (length (pending (R l)) = nat (N l) \<and> eager (R l)))
       then Some (final (R l)) else None),
      l\<lparr>R := (R l)\<lparr>pending := drop (nat (N l)) (pending (R l))\<rparr>,
        N := N l - int (min (nat (N l)) (length (pending (R l))))\<rparr>)"
proof (induction l b rule: ReadAll_loop.induct)
  case (1 l b)
  show ?case
  proof (cases "N l \<le> 0")
    case True
    then show ?thesis
      by (subst ReadAll_loop.simps) (simp add: LimitedReader_Read_def)
  next
    case pos: False
    show ?thesis
    proof (cases "pending (R l) = []")
      case True
      with pos show ?thesis
        by (subst ReadAll_loop.simps) (simp add: LimitedReader_Read_def Reader_Read_def)
    next
      case ne: False
      define k where "k = (if 512 > N l then nat (N l) else 512)"
      have k: "0 < k" "k \<le> nat (N l)" using pos by (auto simp: k_def)
      define p where "p = pending (R l)"
      define l' where "l' = l\<lparr>R := (R l)\<lparr>pending := drop k p\<rparr>, N := N l - int (length (take k p))\<rparr>"
      define e where "e = (if drop k p = [] \<and> eager (R l) then Some (final (R l)) else None)"
      have step: "LimitedReader_Read l 512 = (take k p, e, l')"
        using pos ne by (simp add: LimitedReader_Read_def Reader_Read_def k_def p_def l'_def e_def)
      show ?thesis
      proof (cases e)
        case None
        then have IH: "ReadAll_loop l' (b @ take k p) =
           (b @ take k p @ take (nat (N l')) (pending (R l')),
            (if final (R l') \<noteq> EOF \<and> 0 < N l' \<and>
                (length (pending (R l')) < nat (N l') \<or>
                 (length (pending (R l')) = nat (N l') \<and> eager (R l')))
             then Some (final (R l')) else None),
            l'\<lparr>R := (R l')\<lparr>pending := drop (nat (N l')) (pending (R l'))\<rparr>,
               N := N l' - int (min (nat (N l')) (length (pending (R l'))))\<rparr>)"
          using "1.IH" [of "take k p" "(e, l')" e l'] step by simp
        have more: "\<not> (drop k p = [] \<and> eager (R l))"
          using None by (simp add: e_def split: if_splits)
        have "ReadAll_loop l b = ReadAll_loop l' (b @ take k p)"
          by (subst ReadAll_loop.simps) (simp add: step None)
        also note IH
        finally have eq: "ReadAll_loop l b =
           (b @ take k p @ take (nat (N l')) (pending (R l')),
            (if final (R l') \<noteq> EOF \<and> 0 < N l' \<and>
                (length (pending (R l')) < nat (N l') \<or>
                 (length (pending (R l')) = nat (N l') \<and> eager (R l')))
             then Some (final (R l')) else None),
            l'\<lparr>R := (R l')\<lparr>pending := drop (nat (N l')) (pending (R l'))\<rparr>,
               N := N l' - int (min (nat (N l')) (length (pending (R l'))))\<rparr>)" .
        have N': "N l' = N l - int (min (length p) k)" and p': "pending (R l') = drop k p"
          and f': "final (R l') = final (R l)" and e': "eager (R l') = eager (R l)"
          by (simp_all add: l'_def)
        have n': "nat (N l') = nat (N l) - min (length p) k"
          using k by (simp add: N' nat_diff_distrib')
        have d1: "take k p @ take (nat (N l')) (pending (R l')) = take (nat (N l)) p"
        proof -
          have "nat (N l) = k + (nat (N l) - k)" using k by simp
          then have "take (nat (N l)) p = take k p @ take (nat (N l) - k) (drop k p)"
            by (metis take_add)
          moreover have "take (nat (N l) - k) (drop k p) = take (nat (N l')) (drop k p)"
            by (cases "length p \<le> k") (simp_all add: n' min_def)
          ultimately show ?thesis by (simp add: p')
        qed
        have d2: "drop (nat (N l')) (pending (R l')) = drop (nat (N l)) p"
          using k by (cases "length p \<le> k") (simp_all add: n' p' min_def)
        have d3: "N l' - int (min (nat (N l')) (length (pending (R l')))) =
                  N l - int (min (nat (N l)) (length p))"
          using k pos unfolding N' n' p' by (cases "length p \<le> k") (simp_all add: min_def, linarith+)
        have d4: "(final (R l') \<noteq> EOF \<and> 0 < N l' \<and>
                (length (pending (R l')) < nat (N l') \<or>
                 (length (pending (R l')) = nat (N l') \<and> eager (R l')))) =
                (final (R l) \<noteq> EOF \<and> 0 < N l \<and>
                (length p < nat (N l) \<or> (length p = nat (N l) \<and> eager (R l))))"
          using k pos more ne
          by (cases "length p \<le> k") (auto simp add: N' n' p' f' e' min_def p_def)
        show ?thesis
          unfolding eq d1 d2 d3 d4 by (simp add: l'_def p_def)
      next
        case (Some err)
        then have last: "length p \<le> k" "eager (R l)" and err: "err = final (R l)"
          by (simp_all add: e_def split: if_splits)
        have all: "take k p = p" "take (nat (N l)) p = p" "drop k p = []" "drop (nat (N l)) p = []"
          "min (nat (N l)) (length p) = length p"
          using last k by simp_all
        have "ReadAll_loop l b = (b @ take k p, if err = EOF then None else Some err, l')"
          by (subst ReadAll_loop.simps) (simp add: step Some)
        then show ?thesis
          using last k pos by (auto simp: all err l'_def p_def [symmetric])
      qed
    qed
  qed
qed


lemma ReadAll_LimitReader:
  "ReadAll (LimitReader r n) =
     (take (nat n) (pending r),
      (if final r \<noteq> EOF \<and> 0 < n \<and>
          (length (pending r) < nat n \<or> (length (pending r) = nat n \<and> eager r))
       then Some (final r) else None),
      \<lparr>R = r\<lparr>pending := drop (nat n) (pending r)\<rparr>,
       N = n - int (min (nat n) (length (pending r)))\<rparr>)"
  by (simp add: ReadAll_def ReadAll_loop_eq LimitReader_def)

text \<open>
  The loop run as defined, on a limit below the length of the stream and on a reader
  that fails with its last bytes exactly at the limit.
\<close>

lemma ReadAll_below_length:
  "ReadAll (LimitReader \<lparr>pending = [1, 2, 3], final = EOF, eager = False\<rparr> 2) =
     ([1, 2], None, \<lparr>R = \<lparr>pending = [3], final = EOF, eager = False\<rparr>, N = 0\<rparr>)"
  by code_simp

lemma ReadAll_fails_at_limit:
  "ReadAll (LimitReader \<lparr>pending = [1, 2, 3], final = Failure ''reset'', eager = True\<rparr> 3) =
     ([1, 2, 3], Some (Failure ''reset''),
      \<lparr>R = \<lparr>pending = [], final = Failure ''reset'', eager = True\<rparr>, N = 0\<rparr>)"
  by code_simp

section \<open>The four ways out of body submission\<close>

lemma Data_no_recipients:
  assumes "recipients s = []"
  shows "Session_Data s r w =
     (Some \<lparr>Code = 554, EnhancedCode = (5, 5, 1), Message = ''Error: no valid recipients''\<rparr>,
      s, r, emailError_Inc ''no valid recipients'' w)"
  using assms by (simp add: Session_Data_def)

lemma Data_read_error:
  assumes "recipients s \<noteq> []" "final r \<noteq> EOF"
    and "length (pending r) < 40000001 \<or> (length (pending r) = 40000001 \<and> eager r)"
  shows "Session_Data s r w =
     (Some \<lparr>Code = 451, EnhancedCode = (4, 5, 1),
            Message = ''Temporary server error reading message''\<rparr>,
      s, r\<lparr>pending := []\<rparr>, emailError_Inc ''read error'' w)"
  using assms by (auto simp add: Session_Data_def ReadAll_LimitReader SesSizeLimit_def)

lemma Data_size_exceeded:
  assumes "recipients s \<noteq> []" "40000000 < length (pending r)"
    and "final r = EOF \<or> \<not> eager r \<or> 40000001 < length (pending r)"
  shows "Session_Data s r w =
     (Some \<lparr>Code = 554, EnhancedCode = (5, 5, 1),
            Message = ''Error: maximum message size exceeded''\<rparr>,
      s, r\<lparr>pending := drop 40000001 (pending r)\<rparr>,
      log_Printf (LogSizeExceeded 40000001 40000000)
        (emailError_Inc ''minimum message size exceed'' w))"
  using assms by (auto simp add: Session_Data_def ReadAll_LimitReader SesSizeLimit_def)

lemma Data_send:
  assumes "recipients s \<noteq> []" "length (pending r) \<le> 40000000" "final r = EOF"
  shows "Session_Data s r w =
     (let input = \<lparr>ConfigurationSetName = configSetName (backend s),
                    Source = Some (from' s),
                    Destinations = recipients s,
                    RawMessage = Some \<lparr>Data = Some (pending r)\<rparr>\<rparr>;
          w' = w\<lparr>ses_calls := ses_calls w @ [(sesClient (backend s), input)]\<rparr>
      in case ses_service w (length (ses_calls w)) (sesClient (backend s)) input of
           Some err \<Rightarrow>
             (Some \<lparr>Code = 451, EnhancedCode = (4, 5, 1),
                    Message = ''Temporary server error. Please try again later''\<rparr>,
              s\<lparr>data := Some (pending r)\<rparr>, r\<lparr>pending := []\<rparr>,
              sesError_Inc (emailError_Inc ''ses error'' (log_Printf (LogSesError err) w')))
         | None \<Rightarrow>
             (None, s\<lparr>data := Some (pending r)\<rparr>, r\<lparr>pending := []\<rparr>,
              emailSent_Inc
                (log_Printf
                   (LogSending (from' s) (recipients s)
                      (case configSetName (backend s) of
                         None \<Rightarrow> ''no config set''
                       | Some name \<Rightarrow> ''config set: '' @ name)) w')))"
  using assms
  by (simp add: Session_Data_def ReadAll_LimitReader SesSizeLimit_def SendRawEmail_def Let_def
      split: option.splits)

lemma Data_cases:
  obtains (no_recipients) "recipients s = []"
  | (read_error) "recipients s \<noteq> []" "final r \<noteq> EOF"
      "length (pending r) < 40000001 \<or> (length (pending r) = 40000001 \<and> eager r)"
  | (size_exceeded) "recipients s \<noteq> []" "40000000 < length (pending r)"
      "final r = EOF \<or> \<not> eager r \<or> 40000001 < length (pending r)"
  | (send) "recipients s \<noteq> []" "length (pending r) \<le> 40000000" "final r = EOF"
  by (cases "recipients s = []"; cases "final r = EOF"; cases "eager r"; force)

text \<open>The counters, the log and the record of requests are separate fields of the world.\<close>

lemma World_update_simps [simp]:
  "ses_calls (emailError_Inc ty w) = ses_calls w"
  "ses_calls (emailSent_Inc w) = ses_calls w"
  "ses_calls (sesError_Inc w) = ses_calls w"
  "ses_calls (log_Printf ln w) = ses_calls w"
  "emailSent (emailError_Inc ty w) = emailSent w"
  "emailSent (emailSent_Inc w) = emailSent w + 1"
  "emailSent (sesError_Inc w) = emailSent w"
  "emailSent (log_Printf ln w) = emailSent w"
  "sesError (emailError_Inc ty w) = sesError w"
  "sesError (emailSent_Inc w) = sesError w"
  "sesError (sesError_Inc w) = sesError w + 1"
  "sesError (log_Printf ln w) = sesError w"
  "emailError (emailError_Inc ty w) = (emailError w)(ty := emailError w ty + 1)"
  "emailError (emailSent_Inc w) = emailError w"
  "emailError (sesError_Inc w) = emailError w"
  "emailError (log_Printf ln w) = emailError w"
  by (simp_all add: emailError_Inc_def emailSent_Inc_def sesError_Inc_def log_Printf_def)

lemma Data_send_failed:
  assumes "recipients s \<noteq> []" "length (pending r) \<le> 40000000" "final r = EOF"
    and "ses_service w (length (ses_calls w)) (sesClient (backend s))
           \<lparr>ConfigurationSetName = configSetName (backend s), Source = Some (from' s),
            Destinations = recipients s, RawMessage = Some \<lparr>Data = Some (pending r)\<rparr>\<rparr> = Some err"
  shows "Session_Data s r w =
     (Some \<lparr>Code = 451, EnhancedCode = (4, 5, 1),
            Message = ''Temporary server error. Please try again later''\<rparr>,
      s\<lparr>data := Some (pending r)\<rparr>, r\<lparr>pending := []\<rparr>,
      sesError_Inc (emailError_Inc ''ses error'' (log_Printf (LogSesError err)
        (w\<lparr>ses_calls := ses_calls w @
             [(sesClient (backend s),
               \<lparr>ConfigurationSetName = configSetName (backend s), Source = Some (from' s),
                Destinations = recipients s,
                RawMessage = Some \<lparr>Data = Some (pending r)\<rparr>\<rparr>)]\<rparr>))))"
  by (simp add: Data_send [OF assms(1-3)] Let_def assms(4))

lemma Data_send_ok:
  assumes "recipients s \<noteq> []" "length (pending r) \<le> 40000000" "final r = EOF"
    and "ses_service w (length (ses_calls w)) (sesClient (backend s))
           \<lparr>ConfigurationSetName = configSetName (backend s), Source = Some (from' s),
            Destinations = recipients s, RawMessage = Some \<lparr>Data = Some (pending r)\<rparr>\<rparr> = None"
  shows "Session_Data s r w =
     (None, s\<lparr>data := Some (pending r)\<rparr>, r\<lparr>pending := []\<rparr>,
      emailSent_Inc
        (log_Printf
           (LogSending (from' s) (recipients s)
              (case configSetName (backend s) of
                 None \<Rightarrow> ''no config set''
               | Some name \<Rightarrow> ''config set: '' @ name))
           (w\<lparr>ses_calls := ses_calls w @
             [(sesClient (backend s),
               \<lparr>ConfigurationSetName = configSetName (backend s), Source = Some (from' s),
                Destinations = recipients s,
                RawMessage = Some \<lparr>Data = Some (pending r)\<rparr>\<rparr>)]\<rparr>)))"
  by (simp add: Data_send [OF assms(1-3)] Let_def assms(4))

lemma Data_send_calls:
  assumes "recipients s \<noteq> []" "length (pending r) \<le> 40000000" "final r = EOF"
  shows "ses_calls (snd (snd (snd (Session_Data s r w)))) =
     ses_calls w @
       [(sesClient (backend s),
         \<lparr>ConfigurationSetName = configSetName (backend s), Source = Some (from' s),
          Destinations = recipients s, RawMessage = Some \<lparr>Data = Some (pending r)\<rparr>\<rparr>)]"
  by (simp add: Data_send [OF assms] Let_def split: option.splits)


section \<open>Body submission without recipients\<close>

text \<open>
  C1: when the recipient list of the session is empty, \<open>Session.Data\<close> returns the error
  554 with enhanced code 5.5.1, hands the body reader back exactly as it received it
  (no byte of the body has been read), leaves the list of requests made to the sending
  API as it was (the send operation is not invoked), adds one to the counter of label
  \<open>no valid recipients\<close> and touches neither the other counters nor the session.
\<close>

theorem C1_no_recipients:
  assumes "recipients s = []"
  shows "case Session_Data s r w of
           (e, s', r', w') \<Rightarrow>
             e = Some \<lparr>Code = 554, EnhancedCode = (5, 5, 1),
                       Message = ''Error: no valid recipients''\<rparr> \<and>
             r' = r \<and>
             ses_calls w' = ses_calls w \<and>
             emailError w' =
               (emailError w)(''no valid recipients'' := emailError w ''no valid recipients'' + 1) \<and>
             emailSent w' = emailSent w \<and> sesError w' = sesError w \<and> s' = s"
  by (simp add: Data_no_recipients [OF assms])

theorem C1_no_recipients_witness:
  "recipients (example_session []) = [] \<and>
   (case Session_Data (example_session []) (example_reader [104, 105]) (example_world None) of
      (e, s', r', w') \<Rightarrow>
        e = Some \<lparr>Code = 554, EnhancedCode = (5, 5, 1), Message = ''Error: no valid recipients''\<rparr> \<and>
        pending r' = [104, 105] \<and> ses_calls w' = [] \<and>
        emailError w' ''no valid recipients'' = 1 \<and> emailSent w' = 0)"
proof -
  have h: "recipients (example_session []) = []"
    by (simp add: example_session_def)
  show ?thesis
    using h C1_no_recipients [OF h, where r = "example_reader [104, 105]" and w = "example_world None"]
    by (auto simp: example_world_def example_reader_def)
qed


section \<open>A failing send\<close>

text \<open>
  C4: when body submission has invoked the send operation (the request \<open>input\<close> through
  the client \<open>c\<close> is the one it added to the requests the service received) and the
  service answered that request with an error, \<open>Session.Data\<close> returns the error 451
  with enhanced code 4.5.1, and has added one to the failure counter of label
  \<open>ses error\<close> and one to the counter \<open>sesError\<close>; the success counter is unchanged.
\<close>

theorem C4_send_failure:
  assumes "Session_Data s r w = (e, s', r', w')"
    and "ses_calls w' = ses_calls w @ [(c, input)]"
    and "ses_service w (length (ses_calls w)) c input = Some err"
  shows "e = Some \<lparr>Code = 451, EnhancedCode = (4, 5, 1),
                   Message = ''Temporary server error. Please try again later''\<rparr> \<and>
         emailError w' = (emailError w)(''ses error'' := emailError w ''ses error'' + 1) \<and>
         sesError w' = sesError w + 1 \<and>
         emailSent w' = emailSent w"
proof -
  from assms(1) have e: "e = fst (Session_Data s r w)"
    and w': "w' = snd (snd (snd (Session_Data s r w)))"
    by simp_all
  show ?thesis
  proof (cases rule: Data_cases [where s = s and r = r])
    case no_recipients
    with assms(2) show ?thesis by (simp add: w' Data_no_recipients)
  next
    case read_error
    with assms(2) show ?thesis by (simp add: w' Data_read_error)
  next
    case size_exceeded
    with assms(2) show ?thesis by (simp add: w' Data_size_exceeded)
  next
    case send
    from assms(2) have "c = sesClient (backend s)" and
      "input = \<lparr>ConfigurationSetName = configSetName (backend s), Source = Some (from' s),
          Destinations = recipients s, RawMessage = Some \<lparr>Data = Some (pending r)\<rparr>\<rparr>"
      unfolding w' Data_send_calls [OF send] by simp_all
    with assms(3) have "ses_service w (length (ses_calls w)) (sesClient (backend s))
           \<lparr>ConfigurationSetName = configSetName (backend s), Source = Some (from' s),
            Destinations = recipients s, RawMessage = Some \<lparr>Data = Some (pending r)\<rparr>\<rparr> = Some err"
      by simp
    from Data_send_failed [OF send this] show ?thesis
      by (simp add: e w')
  qed
qed


theorem C4_send_failure_witness:
  "case Session_Data (example_session [''b@example.com'']) (example_reader [120])
          (example_world (Some (Failure ''throttled''))) of
     (e, s', r', w') \<Rightarrow>
       e = Some \<lparr>Code = 451, EnhancedCode = (4, 5, 1),
                 Message = ''Temporary server error. Please try again later''\<rparr> \<and>
       emailError w' ''ses error'' = 1 \<and> sesError w' = 1 \<and> emailSent w' = 0 \<and>
       length (ses_calls w') = 1"
proof -
  let ?s = "example_session [''b@example.com'']"
  let ?r = "example_reader [120]"
  let ?w = "example_world (Some (Failure ''throttled''))"
  let ?input = "\<lparr>ConfigurationSetName = configSetName (backend ?s), Source = Some (from' ?s),
      Destinations = recipients ?s, RawMessage = Some \<lparr>Data = Some (pending ?r)\<rparr>\<rparr>"
  obtain e s' r' w' where d: "Session_Data ?s ?r ?w = (e, s', r', w')"
    by (cases "Session_Data ?s ?r ?w")
  have "ses_calls (snd (snd (snd (Session_Data ?s ?r ?w)))) =
      ses_calls ?w @ [(sesClient (backend ?s), ?input)]"
    by (rule Data_send_calls) (simp_all add: example_session_def example_reader_def)
  then have calls: "ses_calls w' = ses_calls ?w @ [(sesClient (backend ?s), ?input)]"
    by (simp add: d)
  have answer: "ses_service ?w (length (ses_calls ?w)) (sesClient (backend ?s)) ?input =
      Some (Failure ''throttled'')"
    by (simp add: example_world_def)
  from C4_send_failure [OF d calls answer] show ?thesis
    by (simp add: d calls) (simp add: example_world_def)
qed

section \<open>One counter per attempt\<close>

text \<open>
  C5: every body submission returns, and when it has returned exactly one of five
  counters has gone up by one: either the success counter \<open>emailSent\<close>, with the whole
  failure vector \<open>emailError\<close> unchanged, or, with \<open>emailSent\<close> unchanged, the failure
  counter of exactly one of the labels \<open>no valid recipients\<close>, \<open>read error\<close>,
  \<open>minimum message size exceed\<close> and \<open>ses error\<close>, with every other label of the
  vector unchanged. The counter \<open>sesError\<close> is not among them.
\<close>

theorem C5_exactly_one_counter:
  "case Session_Data s r w of
     (e, s', r', w') \<Rightarrow>
       (emailSent w' = emailSent w + 1 \<and> emailError w' = emailError w) \<or>
       (emailSent w' = emailSent w \<and>
        emailError w' =
          (emailError w)(''no valid recipients'' := emailError w ''no valid recipients'' + 1)) \<or>
       (emailSent w' = emailSent w \<and>
        emailError w' = (emailError w)(''read error'' := emailError w ''read error'' + 1)) \<or>
       (emailSent w' = emailSent w \<and>
        emailError w' =
          (emailError w)(''minimum message size exceed'' :=
             emailError w ''minimum message size exceed'' + 1)) \<or>
       (emailSent w' = emailSent w \<and>
        emailError w' = (emailError w)(''ses error'' := emailError w ''ses error'' + 1))"
proof (cases rule: Data_cases [where s = s and r = r])
  case no_recipients
  then show ?thesis by (simp add: Data_no_recipients)
next
  case read_error
  then show ?thesis by (simp add: Data_read_error)
next
  case size_exceeded
  then show ?thesis by (simp add: Data_size_exceeded)
next
  case send
  then show ?thesis by (simp add: Data_send Let_def split: option.splits)
qed


theorem C5_exactly_one_counter_witness:
  "case Session_Data (example_session [''b@example.com'']) (example_reader [120])
          (example_world None) of
     (e, s', r', w') \<Rightarrow>
       e = None \<and> emailSent w' = 1 \<and> emailError w' = (\<lambda>ty. 0) \<and> sesError w' = 0"
proof -
  let ?s = "example_session [''b@example.com'']"
  let ?r = "example_reader [120]"
  let ?w = "example_world None"
  have sent: "emailSent (snd (snd (snd (Session_Data ?s ?r ?w)))) = 1"
    "sesError (snd (snd (snd (Session_Data ?s ?r ?w)))) = 0"
    "fst (Session_Data ?s ?r ?w) = None"
    by (subst Data_send_ok;
        simp add: example_session_def example_reader_def example_world_def)+
  from C5_exactly_one_counter [where s = ?s and r = ?r and w = ?w] sent show ?thesis
    by (auto simp: example_world_def split: prod.splits)
qed

section \<open>A failing read\<close>

text \<open>
  C6: with at least one recipient, when the body reader fails (its final condition is
  an error other than \<open>EOF\<close>) after fewer bytes than the ceiling of \<open>SesSizeLimit + 1\<close>,
  \<open>Session.Data\<close> returns the error 451 with enhanced code 4.5.1, adds one to the
  failure counter of label \<open>read error\<close>, and does not invoke the send operation (the
  requests the service received are unchanged); the other counters and the session
  are unchanged.
\<close>

theorem C6_read_error:
  assumes "recipients s \<noteq> []" and "final r \<noteq> EOF"
    and "int (length (pending r)) < SesSizeLimit + 1"
  shows "case Session_Data s r w of
           (e, s', r', w') \<Rightarrow>
             e = Some \<lparr>Code = 451, EnhancedCode = (4, 5, 1),
                       Message = ''Temporary server error reading message''\<rparr> \<and>
             emailError w' = (emailError w)(''read error'' := emailError w ''read error'' + 1) \<and>
             ses_calls w' = ses_calls w \<and>
             emailSent w' = emailSent w \<and> sesError w' = sesError w \<and> s' = s"
proof -
  from assms(3) have "length (pending r) < 40000001 \<or> (length (pending r) = 40000001 \<and> eager r)"
    by (simp add: SesSizeLimit_def)
  from Data_read_error [OF assms(1,2) this] show ?thesis
    by simp
qed


theorem C6_read_error_witness:
  "case Session_Data (example_session [''b@example.com''])
          \<lparr>pending = [120, 121], final = Failure ''connection reset'', eager = False\<rparr>
          (example_world None) of
     (e, s', r', w') \<Rightarrow>
       e = Some \<lparr>Code = 451, EnhancedCode = (4, 5, 1),
                 Message = ''Temporary server error reading message''\<rparr> \<and>
       emailError w' ''read error'' = 1 \<and> ses_calls w' = [] \<and> emailSent w' = 0"
proof -
  let ?s = "example_session [''b@example.com'']"
  let ?r = "\<lparr>pending = [120, 121], final = Failure ''connection reset'', eager = False\<rparr>"
  have h: "recipients ?s \<noteq> []" "final ?r \<noteq> EOF" "int (length (pending ?r)) < SesSizeLimit + 1"
    by (simp_all add: example_session_def SesSizeLimit_def)
  from C6_read_error [OF h, where w = "example_world None"] show ?thesis
    by (auto simp: example_world_def)
qed

section \<open>The size limit\<close>

lemma Data_bytes_read:
  "\<exists>bs. pending r = bs @ pending (fst (snd (snd (Session_Data s r w)))) \<and>
        int (length bs) \<le> SesSizeLimit + 1"
proof (cases rule: Data_cases [where s = s and r = r])
  case no_recipients
  then show ?thesis by (simp add: Data_no_recipients SesSizeLimit_def)
next
  case read_error
  then have "pending r = pending r @ pending (fst (snd (snd (Session_Data s r w))))"
    "int (length (pending r)) \<le> SesSizeLimit + 1"
    by (auto simp: Data_read_error SesSizeLimit_def)
  then show ?thesis by blast
next
  case size_exceeded
  then have "pending r = take 40000001 (pending r) @ pending (fst (snd (snd (Session_Data s r w))))"
    "int (length (take 40000001 (pending r))) \<le> SesSizeLimit + 1"
    by (simp_all add: Data_size_exceeded SesSizeLimit_def)
  then show ?thesis by blast
next
  case send
  then have "pending (fst (snd (snd (Session_Data s r w)))) = []"
    by (simp add: Data_send Let_def split: option.splits)
  with send have "pending r = pending r @ pending (fst (snd (snd (Session_Data s r w))))"
    "int (length (pending r)) \<le> SesSizeLimit + 1"
    by (simp_all add: SesSizeLimit_def)
  then show ?thesis by blast
qed

lemma Data_send_session:
  assumes "recipients s \<noteq> []" "length (pending r) \<le> 40000000" "final r = EOF"
  shows "fst (snd (Session_Data s r w)) = s\<lparr>data := Some (pending r)\<rparr>"
    and "fst (snd (snd (Session_Data s r w))) = r\<lparr>pending := []\<rparr>"
  by (simp_all add: Data_send [OF assms] Let_def split: option.splits)

lemma Data_send_result:
  assumes "recipients s \<noteq> []" "length (pending r) \<le> 40000000" "final r = EOF"
  shows "(fst (Session_Data s r w) = None) =
     (ses_service w (length (ses_calls w)) (sesClient (backend s))
        \<lparr>ConfigurationSetName = configSetName (backend s), Source = Some (from' s),
         Destinations = recipients s, RawMessage = Some \<lparr>Data = Some (pending r)\<rparr>\<rparr> = None)"
  by (simp add: Data_send [OF assms] Let_def split: option.splits)

lemma Data_oversize:
  assumes "40000000 < length (pending r)"
  shows "ses_calls (snd (snd (snd (Session_Data s r w)))) = ses_calls w"
    and "fst (Session_Data s r w) \<noteq> None"
proof -
  have "ses_calls (snd (snd (snd (Session_Data s r w)))) = ses_calls w \<and>
      fst (Session_Data s r w) \<noteq> None"
  proof (cases rule: Data_cases [where s = s and r = r])
    case no_recipients
    then show ?thesis by (simp add: Data_no_recipients)
  next
    case read_error
    then show ?thesis by (simp add: Data_read_error)
  next
    case size_exceeded
    then show ?thesis by (simp add: Data_size_exceeded)
  next
    case send
    with assms show ?thesis by simp
  qed
  then show "ses_calls (snd (snd (snd (Session_Data s r w)))) = ses_calls w"
    and "fst (Session_Data s r w) \<noteq> None"
    by simp_all
qed

text \<open>
  C2, in four parts.
  \<^enum> Body submission takes at most \<open>SesSizeLimit + 1\<close> = 40,000,001 bytes from the body
    reader: what the reader holds afterwards is what it held before, less a prefix of
    at most that length.
  \<^enum> With at least one recipient, a body of exactly \<open>SesSizeLimit\<close> = 40,000,000 bytes
    that ends properly passes the size check: it is stored in the session, the send
    operation is invoked with it as payload, and body submission succeeds exactly when
    the send does.
  \<^enum> When the reader has more than 40,000,000 bytes to deliver, the send operation is
    not invoked and body submission returns an error, whatever else holds.
  \<^enum> With at least one recipient, such a body, if it ends properly (or, more generally,
    if its reader does not fail on the very byte that reaches the ceiling), is rejected
    with 554 and enhanced code 5.5.1, and the failure counter of the size label goes up
    by one.
\<close>

theorem C2_size_limit:
  "(case Session_Data s r w of
      (e, s', r', w') \<Rightarrow>
        (\<exists>bs. pending r = bs @ pending r' \<and> int (length bs) \<le> SesSizeLimit + 1)) \<and>
   (recipients s \<noteq> [] \<and> int (length (pending r)) = SesSizeLimit \<and> final r = EOF \<longrightarrow>
      (case Session_Data s r w of
         (e, s', r', w') \<Rightarrow>
           data s' = Some (pending r) \<and>
           ses_calls w' =
             ses_calls w @
               [(sesClient (backend s),
                 \<lparr>ConfigurationSetName = configSetName (backend s), Source = Some (from' s),
                  Destinations = recipients s,
                  RawMessage = Some \<lparr>Data = Some (pending r)\<rparr>\<rparr>)] \<and>
           (e = None) =
             (ses_service w (length (ses_calls w)) (sesClient (backend s))
                \<lparr>ConfigurationSetName = configSetName (backend s), Source = Some (from' s),
                 Destinations = recipients s,
                 RawMessage = Some \<lparr>Data = Some (pending r)\<rparr>\<rparr> = None))) \<and>
   (SesSizeLimit < int (length (pending r)) \<longrightarrow>
      (case Session_Data s r w of
         (e, s', r', w') \<Rightarrow> ses_calls w' = ses_calls w \<and> e \<noteq> None)) \<and>
   (recipients s \<noteq> [] \<and> SesSizeLimit < int (length (pending r)) \<and>
    (final r = EOF \<or> \<not> eager r \<or> SesSizeLimit + 1 < int (length (pending r))) \<longrightarrow>
      (case Session_Data s r w of
         (e, s', r', w') \<Rightarrow>
           e = Some \<lparr>Code = 554, EnhancedCode = (5, 5, 1),
                     Message = ''Error: maximum message size exceeded''\<rparr> \<and>
           emailError w' =
             (emailError w)(''minimum message size exceed'' :=
                emailError w ''minimum message size exceed'' + 1)))"
proof (intro conjI impI)
  show "case Session_Data s r w of
      (e, s', r', w') \<Rightarrow>
        (\<exists>bs. pending r = bs @ pending r' \<and> int (length bs) \<le> SesSizeLimit + 1)"
    using Data_bytes_read [of r s w] by (simp add: case_prod_beta)
next
  assume "recipients s \<noteq> [] \<and> int (length (pending r)) = SesSizeLimit \<and> final r = EOF"
  then have h: "recipients s \<noteq> []" "length (pending r) \<le> 40000000" "final r = EOF"
    by (simp_all add: SesSizeLimit_def)
  show "case Session_Data s r w of
         (e, s', r', w') \<Rightarrow>
           data s' = Some (pending r) \<and>
           ses_calls w' =
             ses_calls w @
               [(sesClient (backend s),
                 \<lparr>ConfigurationSetName = configSetName (backend s), Source = Some (from' s),
                  Destinations = recipients s,
                  RawMessage = Some \<lparr>Data = Some (pending r)\<rparr>\<rparr>)] \<and>
           (e = None) =
             (ses_service w (length (ses_calls w)) (sesClient (backend s))
                \<lparr>ConfigurationSetName = configSetName (backend s), Source = Some (from' s),
                 Destinations = recipients s,
                 RawMessage = Some \<lparr>Data = Some (pending r)\<rparr>\<rparr> = None)"
    using Data_send_calls [OF h, of w] Data_send_session(1) [OF h, of w]
      Data_send_result [OF h, of w]
    by (simp add: case_prod_beta)
next
  assume "SesSizeLimit < int (length (pending r))"
  then have "40000000 < length (pending r)"
    by (simp add: SesSizeLimit_def)
  from Data_oversize [OF this, of s w]
  show "case Session_Data s r w of
         (e, s', r', w') \<Rightarrow> ses_calls w' = ses_calls w \<and> e \<noteq> None"
    by (simp add: case_prod_beta)
next
  assume "recipients s \<noteq> [] \<and> SesSizeLimit < int (length (pending r)) \<and>
    (final r = EOF \<or> \<not> eager r \<or> SesSizeLimit + 1 < int (length (pending r)))"
  then have h: "recipients s \<noteq> []" "40000000 < length (pending r)"
    "final r = EOF \<or> \<not> eager r \<or> 40000001 < length (pending r)"
    by (simp_all add: SesSizeLimit_def)
  show "case Session_Data s r w of
         (e, s', r', w') \<Rightarrow>
           e = Some \<lparr>Code = 554, EnhancedCode = (5, 5, 1),
                     Message = ''Error: maximum message size exceeded''\<rparr> \<and>
           emailError w' =
             (emailError w)(''minimum message size exceed'' :=
                emailError w ''minimum message size exceed'' + 1)"
    by (simp add: Data_size_exceeded [OF h])
qed

text \<open>
  Scenario 3 of the spec and its neighbour: 40,000,000 zero bytes are sent on, accepted
  by the client; 40,000,001 are refused with 554 and never sent.
\<close>

theorem C2_size_limit_witness:
  "fst (Session_Data (example_session [''b@example.com''])
      (example_reader (replicate 40000000 0)) (example_world None)) = None \<and>
   ses_calls (snd (snd (snd (Session_Data (example_session [''b@example.com''])
      (example_reader (replicate 40000000 0)) (example_world None))))) =
     [(sesClient example_backend,
       \<lparr>ConfigurationSetName = None, Source = Some ''a@example.com'',
        Destinations = [''b@example.com''],
        RawMessage = Some \<lparr>Data = Some (replicate 40000000 0)\<rparr>\<rparr>)] \<and>
   fst (Session_Data (example_session [''b@example.com''])
      (example_reader (replicate 40000001 0)) (example_world None)) =
     Some \<lparr>Code = 554, EnhancedCode = (5, 5, 1),
           Message = ''Error: maximum message size exceeded''\<rparr> \<and>
   ses_calls (snd (snd (snd (Session_Data (example_session [''b@example.com''])
      (example_reader (replicate 40000001 0)) (example_world None))))) = []"
proof -
  let ?s = "example_session [''b@example.com'']"
  let ?w = "example_world None"
  have at_limit: "recipients ?s \<noteq> [] \<and>
      int (length (pending (example_reader (replicate 40000000 0)))) = SesSizeLimit \<and>
      final (example_reader (replicate 40000000 0)) = EOF"
    by (simp add: example_session_def example_reader_def SesSizeLimit_def)
  have over: "SesSizeLimit < int (length (pending (example_reader (replicate 40000001 0))))"
    by (simp add: example_reader_def SesSizeLimit_def)
  have above: "recipients ?s \<noteq> [] \<and>
      SesSizeLimit < int (length (pending (example_reader (replicate 40000001 0)))) \<and>
      (final (example_reader (replicate 40000001 0)) = EOF \<or>
       \<not> eager (example_reader (replicate 40000001 0)) \<or>
       SesSizeLimit + 1 < int (length (pending (example_reader (replicate 40000001 0)))))"
    by (simp add: example_session_def example_reader_def SesSizeLimit_def)
  note one = C2_size_limit [where s = ?s and r = "example_reader (replicate 40000000 0)"
      and w = ?w, THEN conjunct2, THEN conjunct1, THEN mp, OF at_limit]
  note two = C2_size_limit [where s = ?s and r = "example_reader (replicate 40000001 0)"
      and w = ?w, THEN conjunct2, THEN conjunct2, THEN conjunct1, THEN mp, OF over]
  note three = C2_size_limit [where s = ?s and r = "example_reader (replicate 40000001 0)"
      and w = ?w, THEN conjunct2, THEN conjunct2, THEN conjunct2, THEN mp, OF above]
  from one two three show ?thesis
    by (simp add: case_prod_beta example_session_def example_reader_def example_world_def
        example_backend_def)
qed

section \<open>The request handed to the sending API\<close>

lemma Data_session:
  "fst (snd (Session_Data s r w)) =
     (if ses_calls (snd (snd (snd (Session_Data s r w)))) = ses_calls w then s
      else s\<lparr>data := Some (pending r)\<rparr>)"
proof (cases rule: Data_cases [where s = s and r = r])
  case no_recipients
  then show ?thesis by (simp add: Data_no_recipients)
next
  case read_error
  then show ?thesis by (simp add: Data_read_error)
next
  case size_exceeded
  then show ?thesis by (simp add: Data_size_exceeded)
next
  case send
  then show ?thesis by (simp add: Data_send_calls Data_send [OF send] Let_def split: option.splits)
qed

lemma invoke_backend: "backend (fst (snd (invoke c s w))) = backend s"
proof (cases c)
  case (DATA r)
  then show ?thesis
    using Data_session [of s r w] by (simp add: case_prod_beta split: if_splits)
qed (simp_all add: Session_AuthPlain_def Session_Mail_def Session_Rcpt_def Session_Reset_def)

lemma invoke_all_backend: "backend (fst (snd (invoke_all cs s w))) = backend s"
proof (induction cs arbitrary: s w)
  case Nil
  show ?case by simp
next
  case (Cons c cs)
  have "backend (fst (snd (invoke_all (c # cs) s w))) =
      backend (fst (snd (invoke_all cs (fst (snd (invoke c s w))) (snd (snd (invoke c s w))))))"
    by (simp add: case_prod_beta)
  also have "\<dots> = backend (fst (snd (invoke c s w)))"
    by (rule Cons.IH)
  also have "\<dots> = backend s"
    by (rule invoke_backend)
  finally show ?case .
qed

lemma main_startup_backend:
  assumes "main_startup name args loaded env identity describe w0 = (Inr (addr, b), w1)"
  shows "configSetName b = (if name = [] then None else Some name)"
  using assms
  by (auto simp: main_startup_def Let_def split: prod.splits sum.splits option.splits if_splits)

text \<open>
  C3: let startup, given the configuration-set flag \<open>name\<close>, have produced the backend
  \<open>b\<close>, and let \<open>s\<close> be a session of that backend after any sequence of callbacks. When
  body submission on \<open>s\<close> reaches the send operation (at least one recipient, a body
  within the limit that ends properly), it makes exactly one request, through the
  client of \<open>b\<close>: its source is the sender of the session, its destinations are the
  recipients in their order, its raw message is the body read, and its configuration
  set is \<open>name\<close> itself when a name was given and absent (\<open>None\<close>, not the empty string)
  when none was.
\<close>

theorem C3_send_request:
  assumes "main_startup name args loaded env identity describe w0 = (Inr (addr, b), w1)"
    and "s = fst (snd (invoke_all cmds (Backend_NewSession b c) wa))"
    and "recipients s \<noteq> []"
    and "int (length (pending r)) \<le> SesSizeLimit" and "final r = EOF"
  shows "case Session_Data s r w of
           (e, s', r', w') \<Rightarrow>
             ses_calls w' =
               ses_calls w @
                 [(sesClient b,
                   \<lparr>ConfigurationSetName = (if name = [] then None else Some name),
                    Source = Some (from' s),
                    Destinations = recipients s,
                    RawMessage = Some \<lparr>Data = Some (pending r)\<rparr>\<rparr>)]"
proof -
  have b: "backend s = b"
    unfolding assms(2) invoke_all_backend by (simp add: Backend_NewSession_def)
  from assms(4) have len: "length (pending r) \<le> 40000000"
    by (simp add: SesSizeLimit_def)
  show ?thesis
    using Data_send_calls [OF assms(3) len assms(5), of w] main_startup_backend [OF assms(1)]
    by (simp add: case_prod_beta b)
qed

theorem C3_send_request_witness:
  "fst (main_startup ''campaign-1'' [] (Inr \<lparr>Credentials = DefaultChain ''default''\<rparr>)
         (\<lambda>key. None) (\<lambda>cfg. Inl (Failure ''no identity'')) (\<lambda>c name. None)
         (example_world None)) =
     Inr ('':2500'',
          \<lparr>sesClient = \<lparr>cfg = \<lparr>Credentials = DefaultChain ''default''\<rparr>\<rparr>,
           configSetName = Some ''campaign-1''\<rparr>) \<and>
   ses_calls (snd (snd (snd (Session_Data
      \<lparr>backend = \<lparr>sesClient = \<lparr>cfg = \<lparr>Credentials = DefaultChain ''default''\<rparr>\<rparr>,
                   configSetName = Some ''campaign-1''\<rparr>,
       conn = 3, from' = ''a@example.com'', recipients = [''b@example.com'', ''c@example.com''],
       data = None\<rparr>
      (example_reader [120]) (example_world None))))) =
     [(\<lparr>cfg = \<lparr>Credentials = DefaultChain ''default''\<rparr>\<rparr>,
       \<lparr>ConfigurationSetName = Some ''campaign-1'', Source = Some ''a@example.com'',
        Destinations = [''b@example.com'', ''c@example.com''],
        RawMessage = Some \<lparr>Data = Some [120]\<rparr>\<rparr>)]"
proof -
  let ?b = "\<lparr>sesClient = \<lparr>cfg = \<lparr>Credentials = DefaultChain ''default''\<rparr>\<rparr>,
             configSetName = Some ''campaign-1''\<rparr>"
  let ?s = "\<lparr>backend = ?b, conn = 3, from' = ''a@example.com'',
             recipients = [''b@example.com'', ''c@example.com''], data = None\<rparr>"
  let ?cmds = "[MAIL ''a@example.com'', RCPT ''b@example.com'', RCPT ''c@example.com'']"
  let ?w1 = "log_Printf (LogConfigSetValidated ''campaign-1'')
               (log_Printf (LogIdentityWarning (Failure ''no identity'')) (example_world None))"
  have startup: "main_startup ''campaign-1'' [] (Inr \<lparr>Credentials = DefaultChain ''default''\<rparr>)
         (\<lambda>key. None) (\<lambda>cfg. Inl (Failure ''no identity'')) (\<lambda>c name. None)
         (example_world None) = (Inr ('':2500'', ?b), ?w1)"
    by (simp add: main_startup_def makeSesClient_def validateConfigurationSet_def Getenv_def
        Arg_def DefaultAddr_def Let_def)
  have session: "?s = fst (snd (invoke_all ?cmds (Backend_NewSession ?b 3) (example_world None)))"
    by (simp add: Backend_NewSession_def Session_Mail_def Session_Rcpt_def)
  have rest: "recipients ?s \<noteq> []" "int (length (pending (example_reader [120]))) \<le> SesSizeLimit"
    "final (example_reader [120]) = EOF"
    by (simp_all add: example_reader_def SesSizeLimit_def)
  from C3_send_request [OF startup session rest, where w = "example_world None"] startup
  show ?thesis
    by (simp add: case_prod_beta example_reader_def example_world_def)
qed

section \<open>Reset\<close>

lemma Data_conn:
  "Session_Data (s\<lparr>conn := c\<rparr>) r w =
     (case Session_Data s r w of (e, s', r', w') \<Rightarrow> (e, s'\<lparr>conn := c\<rparr>, r', w'))"
proof (cases rule: Data_cases [where s = s and r = r])
  case no_recipients
  then show ?thesis by (simp add: Data_no_recipients)
next
  case read_error
  then show ?thesis by (simp add: Data_read_error)
next
  case size_exceeded
  then show ?thesis by (simp add: Data_size_exceeded)
next
  case send
  then have send': "recipients (s\<lparr>conn := c\<rparr>) \<noteq> []" by simp
  show ?thesis
    by (simp add: Data_send [OF send] Data_send [OF send' send(2,3)] Let_def split: option.splits)
qed

lemma invoke_conn:
  "invoke cmd (s\<lparr>conn := c\<rparr>) w =
     (case invoke cmd s w of (e, s', w') \<Rightarrow> (e, s'\<lparr>conn := c\<rparr>, w'))"
  by (cases cmd)
    (simp_all add: Session_AuthPlain_def Session_Mail_def Session_Rcpt_def Session_Reset_def
      Data_conn case_prod_beta)

lemma invoke_all_conn:
  "invoke_all cs (s\<lparr>conn := c\<rparr>) w =
     (case invoke_all cs s w of (es, s', w') \<Rightarrow> (es, s'\<lparr>conn := c\<rparr>, w'))"
  by (induction cs arbitrary: s w) (simp_all add: invoke_conn case_prod_beta)

text \<open>
  C7: \<open>Reset\<close> leaves sender, recipients and body empty or absent, whatever the session
  was; as a callback it returns no error and leaves the world, and so the requests made
  to the sending API, unchanged; the session it leaves is the one \<open>NewSession\<close> creates
  for the same backend and connection; and any sequence of callbacks after it gives the
  same results and the same world as on a new session for any connection \<open>c\<close>, the
  final sessions differing in the connection alone.
\<close>

theorem C7_reset:
  "from' (Session_Reset s) = [] \<and> recipients (Session_Reset s) = [] \<and>
   data (Session_Reset s) = None \<and>
   invoke RSET s w = (None, Session_Reset s, w) \<and>
   Session_Reset s = Backend_NewSession (backend s) (conn s) \<and>
   invoke_all cs (Session_Reset s) w' =
     (case invoke_all cs (Backend_NewSession (backend s) c) w' of
        (es, s', w'') \<Rightarrow> (es, s'\<lparr>conn := conn s\<rparr>, w''))"
proof -
  have "Session_Reset s = (Backend_NewSession (backend s) c)\<lparr>conn := conn s\<rparr>"
    by (simp add: Session_Reset_def Backend_NewSession_def)
  then have "invoke_all cs (Session_Reset s) w' =
     (case invoke_all cs (Backend_NewSession (backend s) c) w' of
        (es, s', w'') \<Rightarrow> (es, s'\<lparr>conn := conn s\<rparr>, w''))"
    by (simp add: invoke_all_conn)
  then show ?thesis
    by (simp add: Session_Reset_def Backend_NewSession_def)
qed

theorem C7_reset_witness:
  "invoke_all [MAIL ''c@example.com'', RCPT ''d@example.com'', DATA (example_reader [121])]
     (Session_Reset (example_session [''b@example.com'']\<lparr>data := Some [120]\<rparr>))
     (example_world None) =
   ([None, None, None],
    \<lparr>backend = example_backend, conn = 0, from' = ''c@example.com'',
      recipients = [''d@example.com''], data = Some [121]\<rparr>,
    \<lparr>emailSent = 1, emailError = (\<lambda>ty. 0), sesError = 0,
      logged = [LogSending ''c@example.com'' [''d@example.com''] ''no config set''],
      ses_calls =
        [(sesClient example_backend,
          \<lparr>ConfigurationSetName = None, Source = Some ''c@example.com'',
           Destinations = [''d@example.com''],
           RawMessage = Some \<lparr>Data = Some [121]\<rparr>\<rparr>)],
      ses_service = (\<lambda>n c input. None)\<rparr>)"
proof -
  let ?cs = "[MAIL ''c@example.com'', RCPT ''d@example.com'', DATA (example_reader [121])]"
  let ?s = "example_session [''b@example.com'']\<lparr>data := Some [120]\<rparr>"
  have fresh: "invoke_all ?cs (Backend_NewSession (backend ?s) 7) (example_world None) =
   ([None, None, None],
    \<lparr>backend = example_backend, conn = 7, from' = ''c@example.com'',
      recipients = [''d@example.com''], data = Some [121]\<rparr>,
    \<lparr>emailSent = 1, emailError = (\<lambda>ty. 0), sesError = 0,
      logged = [LogSending ''c@example.com'' [''d@example.com''] ''no config set''],
      ses_calls =
        [(sesClient example_backend,
          \<lparr>ConfigurationSetName = None, Source = Some ''c@example.com'',
           Destinations = [''d@example.com''],
           RawMessage = Some \<lparr>Data = Some [121]\<rparr>\<rparr>)],
      ses_service = (\<lambda>n c input. None)\<rparr>)"
    by (simp add: Backend_NewSession_def Session_Mail_def Session_Rcpt_def Data_send_ok
        example_reader_def example_world_def example_backend_def emailSent_Inc_def
        log_Printf_def example_session_def)
  from C7_reset [where s = ?s
      and c = 7 and w' = "example_world None" and cs = ?cs,
      THEN conjunct2, THEN conjunct2, THEN conjunct2, THEN conjunct2, THEN conjunct2]
  show ?thesis
    unfolding fresh by (simp add: example_session_def)
qed

section \<open>The session after a transaction\<close>




section \<open>Credentials\<close>

lemma wrapped_neq: "CredentialsCache (AssumeRoleProvider c arn name) \<noteq> c"
proof
  assume "CredentialsCache (AssumeRoleProvider c arn name) = c"
  then have "size (CredentialsCache (AssumeRoleProvider c arn name)) = size c"
    by simp
  then show False by simp
qed

text \<open>
  C9: when the default configuration has loaded, \<open>makeSesClient\<close> returns a client, and
  the credentials of that client are the loaded ones wrapped in a cached assume-role
  provider if and only if the environment gives \<open>AWS_ROLE_ARN\<close> a non-empty value;
  otherwise they are the loaded ones. The provider is for that role, and its session
  name is the value of \<open>AWS_ROLE_SESSION_NAME\<close>, or the literal
  \<open>ses-smtpd-relay-session\<close> when that is empty or not set.
\<close>

theorem C9_role_assumption:
  "case makeSesClient (Inr base) env identity w of
     (res, w') \<Rightarrow>
       (\<exists>client. res = Inr client \<and>
          ((\<exists>arn name. Credentials (cfg client) =
               CredentialsCache (AssumeRoleProvider (Credentials base) arn name)) \<longleftrightarrow>
           Getenv env ''AWS_ROLE_ARN'' \<noteq> []) \<and>
          Credentials (cfg client) =
            (if Getenv env ''AWS_ROLE_ARN'' \<noteq> [] then
               CredentialsCache
                 (AssumeRoleProvider (Credentials base) (Getenv env ''AWS_ROLE_ARN'')
                    (if Getenv env ''AWS_ROLE_SESSION_NAME'' = [] then ''ses-smtpd-relay-session''
                     else Getenv env ''AWS_ROLE_SESSION_NAME''))
             else Credentials base))"
  using wrapped_neq [of "Credentials base"]
  by (auto simp: makeSesClient_def Let_def split: sum.splits prod.splits)

theorem C9_role_assumption_witness:
  "fst (makeSesClient (Inr \<lparr>Credentials = DefaultChain ''default''\<rparr>)
          ((\<lambda>key. None)(''AWS_ROLE_ARN'' \<mapsto> ''arn:aws:iam::123456789012:role/relay''))
          (\<lambda>cfg. Inl (Failure ''no identity'')) (example_world None)) =
     Inr \<lparr>cfg = \<lparr>Credentials =
            CredentialsCache
              (AssumeRoleProvider (DefaultChain ''default'')
                 ''arn:aws:iam::123456789012:role/relay'' ''ses-smtpd-relay-session'')\<rparr>\<rparr> \<and>
   fst (makeSesClient (Inr \<lparr>Credentials = DefaultChain ''default''\<rparr>) (\<lambda>key. None)
          (\<lambda>cfg. Inl (Failure ''no identity'')) (example_world None)) =
     Inr \<lparr>cfg = \<lparr>Credentials = DefaultChain ''default''\<rparr>\<rparr>"
  using C9_role_assumption [where base = "\<lparr>Credentials = DefaultChain ''default''\<rparr>"
      and env = "(\<lambda>key. None)(''AWS_ROLE_ARN'' \<mapsto> ''arn:aws:iam::123456789012:role/relay'')"
      and identity = "\<lambda>cfg. Inl (Failure ''no identity'')" and w = "example_world None"]
    C9_role_assumption [where base = "\<lparr>Credentials = DefaultChain ''default''\<rparr>"
      and env = "\<lambda>key. None"
      and identity = "\<lambda>cfg. Inl (Failure ''no identity'')" and w = "example_world None"]
  by (auto simp: Getenv_def case_prod_beta)

section \<open>Declaring the sender twice\<close>

text \<open>
  C10: \<open>Mail\<close> returns no error and sets the sender to its argument; a second \<open>Mail\<close>
  leaves the session as if only the second had happened; backend, connection,
  recipients and body are as before.
\<close>

theorem C10_mail_replaces:
  "Session_Mail s from = (None, s\<lparr>from' := from\<rparr>) \<and>
   Session_Mail (snd (Session_Mail s first)) second = (None, s\<lparr>from' := second\<rparr>) \<and>
   backend (snd (Session_Mail s from)) = backend s \<and>
   conn (snd (Session_Mail s from)) = conn s \<and>
   recipients (snd (Session_Mail s from)) = recipients s \<and>
   data (snd (Session_Mail s from)) = data s"
  by (simp add: Session_Mail_def)

theorem C10_mail_replaces_witness:
  "Session_Mail (snd (Session_Mail (example_session [''b@example.com'']) ''c@example.com''))
     ''d@example.com'' =
   (None, \<lparr>backend = example_backend, conn = 0, from' = ''d@example.com'',
           recipients = [''b@example.com''], data = None\<rparr>)"
  using C10_mail_replaces [where s = "example_session [''b@example.com'']"
      and first = "''c@example.com''" and second = "''d@example.com''",
      THEN conjunct2, THEN conjunct1]
  by (simp add: example_session_def)

end
